theory Spec2Isabelle
  imports Complex_Main "HOL-Library.Multiset"
begin

section \<open>Python string primitives\<close>

text \<open>
  Strings are lists of 8-bit characters, so the model covers ASCII text. The operations
  below are the ones \<^verbatim>\<open>app/catalog.py\<close> calls on \<^verbatim>\<open>str\<close>:
  \<^verbatim>\<open>lower\<close>, \<^verbatim>\<open>split\<close> without argument,
  \<^verbatim>\<open>strip(chars)\<close>, \<^verbatim>\<open>sep.join\<close> and the substring test
  \<^verbatim>\<open>needle in haystack\<close>.
\<close>

definition is_space :: "char \<Rightarrow> bool" where
  \<comment> \<open>\<^verbatim>\<open>str.isspace\<close> on ASCII: TAB, LF, VT, FF, CR, FS, GS, RS, US and the blank.\<close>
  "is_space c = (let n = (of_char c :: nat) in (9 \<le> n \<and> n \<le> 13) \<or> (28 \<le> n \<and> n \<le> 32))"

definition lower_char :: "char \<Rightarrow> char" where
  "lower_char c =
     (let n = (of_char c :: nat) in if 65 \<le> n \<and> n \<le> 90 then char_of (n + 32) else c)"

definition lower :: "string \<Rightarrow> string" where
  "lower s = map lower_char s"

fun split_from :: "string \<Rightarrow> string \<Rightarrow> string list" where
  "split_from cur [] = (if cur = [] then [] else [cur])"
| "split_from cur (c # cs) =
     (if is_space c then (if cur = [] then split_from [] cs else cur # split_from [] cs)
      else split_from (cur @ [c]) cs)"

definition split :: "string \<Rightarrow> string list" where
  \<comment> \<open>\<^verbatim>\<open>s.split()\<close>: the maximal runs of non-whitespace characters, in order.\<close>
  "split s = split_from [] s"

definition lstrip :: "string \<Rightarrow> string \<Rightarrow> string" where
  "lstrip chars s = dropWhile (\<lambda>c. c \<in> set chars) s"

definition rstrip :: "string \<Rightarrow> string \<Rightarrow> string" where
  "rstrip chars s = rev (dropWhile (\<lambda>c. c \<in> set chars) (rev s))"

definition strip :: "string \<Rightarrow> string \<Rightarrow> string" where
  \<comment> \<open>\<^verbatim>\<open>s.strip(chars)\<close> removes the characters of \<open>chars\<close> at both ends.\<close>
  "strip chars s = rstrip chars (lstrip chars s)"

fun join :: "string \<Rightarrow> string list \<Rightarrow> string" where
  "join sep [] = []"
| "join sep [x] = x"
| "join sep (x # y # ys) = x @ sep @ join sep (y # ys)"

fun str_in :: "string \<Rightarrow> string \<Rightarrow> bool" where
  \<comment> \<open>\<^verbatim>\<open>needle in haystack\<close> on strings: the needle occurs as a contiguous substring.\<close>
  "str_in needle [] = (needle = [])"
| "str_in needle (c # cs) = (take (length needle) (c # cs) = needle \<or> str_in needle cs)"

section \<open>Tokenizers\<close>

definition fallback_stop_words :: "string set" where
  "fallback_stop_words =
     {''find'', ''need'', ''with'', ''that'', ''this'', ''for'', ''the'', ''and'', ''top'',
      ''best'', ''under'', ''cheapest'', ''stock'', ''in-stock''}"

definition fallback_query_tokens :: "string \<Rightarrow> string set" where
  \<comment> \<open>The set comprehension \<open>query_tokens\<close> of \<^verbatim>\<open>CatalogService._fallback_search\<close>.\<close>
  "fallback_query_tokens keywords =
     set (map (strip '',.?!'')
       (filter (\<lambda>token. length token > 2 \<and> strip '',.?!'' token \<notin> fallback_stop_words)
         (split (lower keywords))))"

definition coverage_stop_words :: "string set" where
  "coverage_stop_words =
     {''find'', ''need'', ''with'', ''that'', ''this'', ''for'', ''the'', ''and'', ''top'',
      ''best'', ''under'', ''in'', ''stock''}"

definition coverage_query_tokens :: "string \<Rightarrow> string set" where
  \<comment> \<open>The set comprehension \<open>query_tokens\<close> of \<^verbatim>\<open>_keyword_coverage\<close>.\<close>
  "coverage_query_tokens query =
     set (map (strip '',.?!'')
       (filter (\<lambda>token. length token > 2 \<and> strip '',.?!'' token \<notin> coverage_stop_words)
         (split (lower query))))"

section \<open>Numbers\<close>

text \<open>
  Python floats are modelled by exact rationals: every arithmetic operation is the exact one,
  and \<^verbatim>\<open>round(x, ndigits)\<close> rounds the exact value to the nearest multiple of a
  power of ten, a tie going to the even neighbour as Python does.
\<close>

definition round_half_even :: "rat \<Rightarrow> int" where
  "round_half_even y =
     (let f = \<lfloor>y\<rfloor>; d = y - of_int f
      in if d < 1 / 2 then f else if 1 / 2 < d then f + 1 else if even f then f else f + 1)"

definition py_round :: "rat \<Rightarrow> nat \<Rightarrow> rat" where
  "py_round x ndigits = of_int (round_half_even (x * 10 ^ ndigits)) / 10 ^ ndigits"

definition digit_char :: "nat \<Rightarrow> char" where
  "digit_char d = char_of (48 + d)"

function show_nat :: "nat \<Rightarrow> string" where
  "show_nat n = (if n < 10 then [digit_char n] else show_nat (n div 10) @ [digit_char (n mod 10)])"
  by pat_completeness auto
termination
  by (relation "measure (\<lambda>n. n)") auto

definition show_int :: "int \<Rightarrow> string" where
  \<comment> \<open>\<^verbatim>\<open>str(i)\<close> of an integer.\<close>
  "show_int i = (if i < 0 then ''-'' @ show_nat (nat (- i)) else show_nat (nat i))"

definition format_2f :: "rat \<Rightarrow> string" where
  \<comment> \<open>The format specification \<^verbatim>\<open>:.2f\<close>: sign, integer part, point, two decimals.\<close>
  "format_2f x =
     (let m = nat (round_half_even (\<bar>x\<bar> * 100))
      in (if x < 0 then ''-'' else []) @ show_nat (m div 100) @ ''.''
           @ [digit_char (m mod 100 div 10), digit_char (m mod 10)])"

section \<open>Data model\<close>

datatype exn =
    KeyError string
  | AssertionError
  | EngineError string

fun exn_str :: "exn \<Rightarrow> string" where
  \<comment> \<open>\<^verbatim>\<open>str(exc)\<close>, as the f-string of \<^verbatim>\<open>search\<close> renders the exception.\<close>
  "exn_str (KeyError k) = [CHR 0x27] @ k @ [CHR 0x27]"
| "exn_str AssertionError = []"
| "exn_str (EngineError msg) = msg"

datatype specs_value = SpecsDict "(string \<times> string) list" | SpecsOther

text \<open>
  A catalog document is a JSON object, a \<^verbatim>\<open>dict[str, Any]\<close>. Each key the code reads is
  a field; \<open>None\<close> is the key being absent. The specification map keeps its insertion
  order, which \<^verbatim>\<open>specs.items()\<close> follows; its values are strings, as the catalog
  generator writes them.
\<close>

record document =
  doc_id :: "string option"
  doc_manufacturer :: "string option"
  doc_manufacturer_part_number :: "string option"
  doc_name :: "string option"
  doc_description :: "string option"
  doc_category :: "string option"
  doc_unit_price :: "rat option"
  doc_quantity_available :: "int option"
  doc_tags :: "string list option"
  doc_use_cases :: "string list option"
  doc_key_specs :: "specs_value option"
  doc_product_url :: "string option"
  doc_datasheet_url :: "string option"

definition get_or :: "'a option \<Rightarrow> 'a \<Rightarrow> 'a" where
  \<comment> \<open>\<^verbatim>\<open>doc.get(key, default)\<close>.\<close>
  "get_or v dflt = (case v of None \<Rightarrow> dflt | Some x \<Rightarrow> x)"

definition subscript :: "string \<Rightarrow> 'a option \<Rightarrow> exn + 'a" where
  \<comment> \<open>\<^verbatim>\<open>doc[key]\<close>.\<close>
  "subscript key v = (case v of None \<Rightarrow> Inl (KeyError key) | Some x \<Rightarrow> Inr x)"

datatype sort_preference = relevance | price_low | stock_high

record QueryIntent =
  intent_keywords :: string
  intent_limit :: int
  intent_in_stock_only :: bool
  intent_min_quantity :: "int option"
  intent_max_unit_price :: "rat option"
  intent_sort_preference :: sort_preference

definition QueryIntent_valid :: "QueryIntent \<Rightarrow> bool" where
  \<comment> \<open>The field constraints of \<^verbatim>\<open>app/models.py\<close>, which pydantic enforces on construction.\<close>
  "QueryIntent_valid intent =
     (1 \<le> intent_limit intent \<and> intent_limit intent \<le> 20
      \<and> (case intent_min_quantity intent of None \<Rightarrow> True | Some m \<Rightarrow> 0 \<le> m)
      \<and> (case intent_max_unit_price intent of None \<Rightarrow> True | Some p \<Rightarrow> 0 < p))"

record ProductResult =
  pr_id :: string
  pr_manufacturer :: string
  pr_manufacturer_part_number :: string
  pr_name :: string
  pr_description :: string
  pr_category :: string
  pr_unit_price :: rat
  pr_quantity_available :: int
  pr_product_url :: string
  pr_datasheet_url :: string
  pr_recommendation_score :: rat
  pr_fit_reason :: string

section \<open>Scoring model\<close>

definition spec_blob_from_doc :: "document \<Rightarrow> string" where
  "spec_blob_from_doc doc =
     (case get_or (doc_key_specs doc) (SpecsDict []) of
        SpecsOther \<Rightarrow> []
      | SpecsDict specs \<Rightarrow> join '' '' (map (\<lambda>(key, value). key @ '' '' @ value) specs))"

definition spec_blob :: "document \<Rightarrow> string" where
  \<comment> \<open>The copy in \<^verbatim>\<open>scripts/seed_elasticsearch.py\<close>.\<close>
  "spec_blob doc =
     (case get_or (doc_key_specs doc) (SpecsDict []) of
        SpecsOther \<Rightarrow> []
      | SpecsDict specs \<Rightarrow> join '' '' (map (\<lambda>(key, value). key @ '' '' @ value) specs))"

definition recommendation_score :: "rat \<Rightarrow> rat \<Rightarrow> document \<Rightarrow> rat \<Rightarrow> rat" where
  "recommendation_score raw_score top_score doc coverage =
     (let relevance = raw_score / max top_score 0.0001;
          stock = min (of_int (get_or (doc_quantity_available doc) 0) / 10000) 1.0;
          price = get_or (doc_unit_price doc) 0.0;
          price_score = 1 / (1 + max price 0.0)
      in py_round (0.78 * relevance + 0.15 * coverage + 0.05 * stock + 0.02 * price_score) 4)"

definition build_reason :: "document \<Rightarrow> rat \<Rightarrow> rat \<Rightarrow> string" where
  "build_reason doc score coverage =
     ''Score '' @ format_2f score @ '' with keyword coverage ''
       @ format_2f coverage @ '', stock ('' @ show_int (get_or (doc_quantity_available doc) 0)
       @ '' pcs), and price ($'' @ format_2f (get_or (doc_unit_price doc) 0) @ '').''"

definition coverage_haystack :: "document \<Rightarrow> string" where
  "coverage_haystack doc =
     lower (join '' ''
       [get_or (doc_manufacturer doc) [],
        get_or (doc_manufacturer_part_number doc) [],
        get_or (doc_name doc) [],
        get_or (doc_description doc) [],
        join '' '' (get_or (doc_tags doc) []),
        join '' '' (get_or (doc_use_cases doc) [])])"

definition keyword_coverage :: "string \<Rightarrow> document \<Rightarrow> rat" where
  "keyword_coverage query doc =
     (let query_tokens = coverage_query_tokens query
      in if query_tokens = {} then 0.0
         else let haystack = coverage_haystack doc;
                  matched = card {token \<in> query_tokens. str_in token haystack}
              in of_nat matched / of_nat (card query_tokens))"

section \<open>Search results\<close>

definition and_then :: "exn + 'a \<Rightarrow> ('a \<Rightarrow> exn + 'b) \<Rightarrow> exn + 'b" where
  \<comment> \<open>Sequencing: an exception raised by the first step leaves the whole computation.\<close>
  "and_then m f = (case m of Inl e \<Rightarrow> Inl e | Inr x \<Rightarrow> f x)"

definition product_result :: "document \<Rightarrow> rat \<Rightarrow> string \<Rightarrow> exn + ProductResult" where
  \<comment> \<open>The call \<^verbatim>\<open>ProductResult(id=doc["id"], ...)\<close> that both search paths make: the
      keyword arguments are evaluated in order, so the first absent key is the one reported.\<close>
  "product_result doc score reason =
     and_then (subscript ''id'' (doc_id doc)) (\<lambda>v_id.
     and_then (subscript ''manufacturer'' (doc_manufacturer doc)) (\<lambda>v_manufacturer.
     and_then (subscript ''manufacturer_part_number'' (doc_manufacturer_part_number doc)) (\<lambda>v_part_number.
     and_then (subscript ''name'' (doc_name doc)) (\<lambda>v_name.
     and_then (subscript ''description'' (doc_description doc)) (\<lambda>v_description.
     and_then (subscript ''category'' (doc_category doc)) (\<lambda>v_category.
     and_then (subscript ''unit_price'' (doc_unit_price doc)) (\<lambda>v_unit_price.
     and_then (subscript ''quantity_available'' (doc_quantity_available doc)) (\<lambda>v_quantity.
     and_then (subscript ''product_url'' (doc_product_url doc)) (\<lambda>v_product_url.
     and_then (subscript ''datasheet_url'' (doc_datasheet_url doc)) (\<lambda>v_datasheet_url.
       Inr \<lparr>pr_id = v_id,
            pr_manufacturer = v_manufacturer,
            pr_manufacturer_part_number = v_part_number,
            pr_name = v_name,
            pr_description = v_description,
            pr_category = v_category,
            pr_unit_price = v_unit_price,
            pr_quantity_available = v_quantity,
            pr_product_url = v_product_url,
            pr_datasheet_url = v_datasheet_url,
            pr_recommendation_score = score,
            pr_fit_reason = reason\<rparr>))))))))))"

definition sort_by_score :: "ProductResult list \<Rightarrow> ProductResult list" where
  \<comment> \<open>\<^verbatim>\<open>results.sort(key=lambda r: r.recommendation_score, reverse=True)\<close>: a stable sort,
      results of equal score keep their order.\<close>
  "sort_by_score results = sort_key (\<lambda>r. - pr_recommendation_score r) results"

definition slice_to :: "'a list \<Rightarrow> int \<Rightarrow> 'a list" where
  \<comment> \<open>\<^verbatim>\<open>xs[:n]\<close>; a negative \<open>n\<close> counts from the end.\<close>
  "slice_to xs n = (if 0 \<le> n then take (nat n) xs else take (nat (int (length xs) + n)) xs)"

section \<open>Fallback search engine\<close>

definition fallback_haystack :: "document \<Rightarrow> exn + string" where
  "fallback_haystack doc =
     and_then (subscript ''manufacturer'' (doc_manufacturer doc)) (\<lambda>v_manufacturer.
     and_then (subscript ''manufacturer_part_number'' (doc_manufacturer_part_number doc)) (\<lambda>v_part_number.
     and_then (subscript ''name'' (doc_name doc)) (\<lambda>v_name.
     and_then (subscript ''description'' (doc_description doc)) (\<lambda>v_description.
       Inr (lower (join '' ''
         [v_manufacturer, v_part_number, v_name, v_description,
          join '' '' (get_or (doc_tags doc) []),
          join '' '' (get_or (doc_use_cases doc) [])]))))))"

definition out_of_stock :: "QueryIntent \<Rightarrow> document \<Rightarrow> exn + bool" where
  \<comment> \<open>\<^verbatim>\<open>intent.in_stock_only and doc["quantity_available"] <= 0\<close>\<close>
  "out_of_stock intent doc =
     (if intent_in_stock_only intent
      then and_then (subscript ''quantity_available'' (doc_quantity_available doc)) (\<lambda>q. Inr (q \<le> 0))
      else Inr False)"

definition below_min_quantity :: "QueryIntent \<Rightarrow> document \<Rightarrow> exn + bool" where
  \<comment> \<open>\<^verbatim>\<open>intent.min_quantity is not None and doc["quantity_available"] < intent.min_quantity\<close>\<close>
  "below_min_quantity intent doc =
     (case intent_min_quantity intent of
        None \<Rightarrow> Inr False
      | Some m \<Rightarrow>
          and_then (subscript ''quantity_available'' (doc_quantity_available doc)) (\<lambda>q. Inr (q < m)))"

definition above_max_price :: "QueryIntent \<Rightarrow> document \<Rightarrow> exn + bool" where
  \<comment> \<open>\<^verbatim>\<open>intent.max_unit_price is not None and doc["unit_price"] > intent.max_unit_price\<close>\<close>
  "above_max_price intent doc =
     (case intent_max_unit_price intent of
        None \<Rightarrow> Inr False
      | Some m \<Rightarrow> and_then (subscript ''unit_price'' (doc_unit_price doc)) (\<lambda>p. Inr (m < p)))"

definition fallback_candidate ::
  "QueryIntent \<Rightarrow> string set \<Rightarrow> document \<Rightarrow> exn + ProductResult option" where
  \<comment> \<open>One iteration of the loop over \<^verbatim>\<open>self._fallback_docs\<close>: \<open>Inr None\<close> is
      \<^verbatim>\<open>continue\<close>, \<open>Inr (Some r)\<close> the result appended.\<close>
  "fallback_candidate intent query_tokens doc =
     and_then (fallback_haystack doc) (\<lambda>haystack.
       let match_score = card {token \<in> query_tokens. str_in token haystack}
       in if query_tokens \<noteq> {} \<and> match_score = 0 then Inr None
          else
            and_then (out_of_stock intent doc) (\<lambda>skip1. if skip1 then Inr None else
            and_then (below_min_quantity intent doc) (\<lambda>skip2. if skip2 then Inr None else
            and_then (above_max_price intent doc) (\<lambda>skip3. if skip3 then Inr None else
              let coverage = keyword_coverage (intent_keywords intent) doc;
                  score = recommendation_score 1.0 1.0 doc coverage
              in and_then (product_result doc score (build_reason doc score coverage))
                   (\<lambda>r. Inr (Some r))))))"

fun fallback_loop ::
  "QueryIntent \<Rightarrow> string set \<Rightarrow> document list \<Rightarrow> exn + ProductResult list" where
  "fallback_loop intent query_tokens [] = Inr []"
| "fallback_loop intent query_tokens (doc # docs) =
     and_then (fallback_candidate intent query_tokens doc) (\<lambda>candidate.
     and_then (fallback_loop intent query_tokens docs) (\<lambda>results.
       case candidate of None \<Rightarrow> Inr results | Some r \<Rightarrow> Inr (r # results)))"

section \<open>Remote search engine\<close>

text \<open>
  The Elasticsearch client is outside the program. What the code builds is the request; what
  it reads back is either an exception or the list \<^verbatim>\<open>response["hits"]["hits"]\<close>.
\<close>

datatype range_filter =
    quantity_gt int
  | quantity_gte int
  | unit_price_lte rat

datatype sort_clause = by_score | unit_price_asc | quantity_available_desc

record es_request =
  req_index :: string
  req_multi_match_query :: string
  req_multi_match_fields :: "string list"
  req_fuzziness :: string
  req_filter :: "range_filter list"
  req_size :: int
  req_sort :: "sort_clause list"

record hit =
  hit_score :: "rat option"
  hit_source :: "document option"

type_synonym client = "es_request \<Rightarrow> exn + hit list"

record CatalogService =
  es_index :: string
  connect_attempts :: int
  s_client :: "client option"
  s_mode :: string
  s_fallback_docs :: "document list"

definition empty_document :: document where
  \<comment> \<open>The default \<^verbatim>\<open>{}\<close> of \<^verbatim>\<open>hit.get("_source", {})\<close>.\<close>
  "empty_document =
     \<lparr>doc_id = None, doc_manufacturer = None, doc_manufacturer_part_number = None,
      doc_name = None, doc_description = None, doc_category = None, doc_unit_price = None,
      doc_quantity_available = None, doc_tags = None, doc_use_cases = None,
      doc_key_specs = None, doc_product_url = None, doc_datasheet_url = None\<rparr>"

definition score_or :: "hit \<Rightarrow> rat \<Rightarrow> rat" where
  \<comment> \<open>\<^verbatim>\<open>hit.get("_score") or dflt\<close>: an absent, null or zero score gives the default.\<close>
  "score_or h dflt = (case hit_score h of None \<Rightarrow> dflt | Some s \<Rightarrow> if s = 0 then dflt else s)"

definition build_request :: "CatalogService \<Rightarrow> QueryIntent \<Rightarrow> es_request" where
  "build_request self intent =
     \<lparr>req_index = es_index self,
      req_multi_match_query = intent_keywords intent,
      req_multi_match_fields =
        [''name^4'', ''description^3'', ''category^2'', ''manufacturer^2'', ''tags^2'',
         ''use_cases^2'', ''spec_blob''],
      req_fuzziness = ''AUTO'',
      req_filter =
        (if intent_in_stock_only intent then [quantity_gt 0] else [])
        @ (case intent_min_quantity intent of None \<Rightarrow> [] | Some m \<Rightarrow> [quantity_gte m])
        @ (case intent_max_unit_price intent of None \<Rightarrow> [] | Some p \<Rightarrow> [unit_price_lte p]),
      req_size = intent_limit intent,
      req_sort =
        (case intent_sort_preference intent of
           price_low \<Rightarrow> [unit_price_asc, by_score]
         | stock_high \<Rightarrow> [quantity_available_desc, by_score]
         | relevance \<Rightarrow> [by_score])\<rparr>"

definition hit_result :: "string \<Rightarrow> rat \<Rightarrow> hit \<Rightarrow> exn + ProductResult" where
  \<comment> \<open>The body of the loop over \<open>hits\<close>.\<close>
  "hit_result query top_score h =
     (let doc = get_or (hit_source h) empty_document;
          score = score_or h 0.0;
          coverage = keyword_coverage query doc;
          rec_score = recommendation_score score top_score doc coverage;
          reason = build_reason doc rec_score coverage
      in product_result doc rec_score reason)"

fun hit_results :: "string \<Rightarrow> rat \<Rightarrow> hit list \<Rightarrow> exn + ProductResult list" where
  "hit_results query top_score [] = Inr []"
| "hit_results query top_score (h # hs) =
     and_then (hit_result query top_score h) (\<lambda>r.
     and_then (hit_results query top_score hs) (\<lambda>results. Inr (r # results)))"

fun max_of :: "rat list \<Rightarrow> rat" where
  \<comment> \<open>\<^verbatim>\<open>max\<close> of a sequence; the code calls it on a non-empty one only.\<close>
  "max_of [] = 0"
| "max_of (x # xs) = fold max xs x"

definition search_elasticsearch :: "CatalogService \<Rightarrow> QueryIntent \<Rightarrow> exn + ProductResult list" where
  "search_elasticsearch self intent =
     (case s_client self of
        None \<Rightarrow> Inl AssertionError
      | Some client \<Rightarrow>
          (case client (build_request self intent) of
             Inl e \<Rightarrow> Inl e
           | Inr hits \<Rightarrow>
               if hits = [] then Inr []
               else
                 let top_score = max_of (map (\<lambda>h. score_or h 1.0) hits)
                 in and_then (hit_results (intent_keywords intent) top_score hits)
                      (\<lambda>results. Inr (sort_by_score results))))"

section \<open>The catalog service\<close>

definition fallback_search :: "CatalogService \<Rightarrow> QueryIntent \<Rightarrow> exn + ProductResult list" where
  "fallback_search self intent =
     (let query_tokens = fallback_query_tokens (intent_keywords intent)
      in and_then (fallback_loop intent query_tokens (s_fallback_docs self))
           (\<lambda>results. Inr (slice_to (sort_by_score results) (intent_limit intent))))"

definition new_service :: "string \<Rightarrow> int \<Rightarrow> document list \<Rightarrow> CatalogService" where
  \<comment> \<open>\<^verbatim>\<open>CatalogService.__init__\<close>: the index name and the attempt count come from the
      environment, the documents from the seed catalog file.\<close>
  "new_service index attempts docs =
     \<lparr>es_index = index, connect_attempts = attempts, s_client = None,
      s_mode = ''fallback'', s_fallback_docs = docs\<rparr>"

definition mode :: "CatalogService \<Rightarrow> string" where
  "mode self = s_mode self"

datatype attempt = ping_ok client | ping_failed | attempt_raised

fun connect_loop :: "(nat \<Rightarrow> attempt) \<Rightarrow> nat \<Rightarrow> nat \<Rightarrow> client option" where
  "connect_loop world i 0 = None"
| "connect_loop world i (Suc k) =
     (case world i of
        ping_ok c \<Rightarrow> Some c
      | ping_failed \<Rightarrow> connect_loop world (Suc i) k
      | attempt_raised \<Rightarrow> connect_loop world (Suc i) k)"

definition connect_with_retry :: "(nat \<Rightarrow> attempt) \<Rightarrow> int \<Rightarrow> client option" where
  \<comment> \<open>\<open>world i\<close> is what the \<open>i\<close>-th connection attempt meets; \<^verbatim>\<open>range(max_attempts)\<close>
      is empty for a count below one.\<close>
  "connect_with_retry world max_attempts = connect_loop world 0 (nat max_attempts)"

definition initialize ::
  "CatalogService \<Rightarrow> (nat \<Rightarrow> attempt) \<Rightarrow> exn option \<Rightarrow> CatalogService \<times> (exn + string option)" where
  \<comment> \<open>\<open>provision\<close> is the exception that \<^verbatim>\<open>_ensure_index\<close> or
      \<^verbatim>\<open>_seed_if_empty\<close> raises, if any. The service is returned as the call leaves it,
      also when the call raises.\<close>
  "initialize self world provision =
     (case connect_with_retry world (connect_attempts self) of
        None \<Rightarrow>
          (self\<lparr>s_mode := ''fallback''\<rparr>,
           Inr (Some ''Elasticsearch is unavailable; using local fallback catalog.''))
      | Some client \<Rightarrow>
          (case provision of
             Some e \<Rightarrow> (self\<lparr>s_client := Some client\<rparr>, Inl e)
           | None \<Rightarrow> (self\<lparr>s_client := Some client, s_mode := ''elasticsearch''\<rparr>, Inr None)))"

definition with_warning ::
  "exn + ProductResult list \<Rightarrow> string \<Rightarrow> exn + (ProductResult list \<times> string option)" where
  \<comment> \<open>\<^verbatim>\<open>return self._fallback_search(intent), warning\<close>: an exception of the fallback
      search leaves \<^verbatim>\<open>search\<close>.\<close>
  "with_warning outcome warning =
     and_then outcome (\<lambda>results. Inr (results, Some warning))"

definition search ::
  "CatalogService \<Rightarrow> QueryIntent
     \<Rightarrow> CatalogService \<times> (exn + (ProductResult list \<times> string option))" where
  \<comment> \<open>The service comes back with the outcome; \<^verbatim>\<open>search\<close> assigns to no attribute.\<close>
  "search self intent =
     (if s_mode self \<noteq> ''elasticsearch'' \<or> s_client self = None
      then (self, with_warning (fallback_search self intent)
                    ''Results are from fallback data, not Elasticsearch.'')
      else
        case search_elasticsearch self intent of
          Inr results \<Rightarrow> (self, Inr (results, None))
        | Inl exc \<Rightarrow>
            (self, with_warning (fallback_search self intent)
                     (''Elasticsearch query failed ('' @ exn_str exc @ ''); using fallback data.'')))"


inductive reachable :: "CatalogService \<Rightarrow> bool" where
  \<comment> \<open>The services a process can hold: constructed, then any sequence of calls.\<close>
  created: "reachable (new_service index attempts docs)"
| initialized: "reachable self \<Longrightarrow> reachable (fst (initialize self world provision))"
| searched: "reachable self \<Longrightarrow> reachable (fst (search self intent))"

section \<open>The coverage tokenizer as the specification words it\<close>

text \<open>
  The specification describes the tokenizer of the scoring model as: split the query at
  whitespace, lowercase, strip trailing punctuation, drop the tokens of length at most two
  and the stop words. The two definitions below follow these words, step by step; they are
  compared with \<^const>\<open>coverage_query_tokens\<close> and \<^const>\<open>keyword_coverage\<close>.
\<close>

definition spec_query_tokens :: "string \<Rightarrow> string set" where
  "spec_query_tokens query =
     set (filter (\<lambda>token. \<not> length token \<le> 2 \<and> token \<notin> coverage_stop_words)
       (map (rstrip '',.?!'') (split (lower query))))"

definition spec_keyword_coverage :: "string \<Rightarrow> document \<Rightarrow> rat" where
  "spec_keyword_coverage query doc =
     (let query_tokens = spec_query_tokens query
      in if query_tokens = {} then 0
         else of_nat (card {token \<in> query_tokens. str_in token (coverage_haystack doc)})
                / of_nat (card query_tokens))"

section \<open>Example values\<close>

definition psu_doc :: document where
  "psu_doc =
     \<lparr>doc_id = Some ''rpi-featured-001'',
      doc_manufacturer = Some ''Raspberry Pi'',
      doc_manufacturer_part_number = Some ''RPI-PSU27-42'',
      doc_name = Some ''Raspberry Pi Official USB-C 27W PSU'',
      doc_description = Some ''5V power supply for Raspberry Pi 5 boards.'',
      doc_category = Some ''Raspberry Pi Accessories'',
      doc_unit_price = Some 12.5,
      doc_quantity_available = Some 500,
      doc_tags = Some [''raspberry pi'', ''accessory''],
      doc_use_cases = Some [''maker'', ''education''],
      doc_key_specs = Some (SpecsDict [(''interface'', ''USB-C''), (''status'', ''Active'')]),
      doc_product_url = Some ''https://www.digikey.com/rpi-psu27-42/'',
      doc_datasheet_url = Some ''https://datasheets.example.com/rpi-psu27-42.pdf''\<rparr>"

definition resistor_doc :: document where
  "resistor_doc =
     \<lparr>doc_id = Some ''mock-11-0001'',
      doc_manufacturer = Some ''Yageo'',
      doc_manufacturer_part_number = Some ''YAGE-110001-17'',
      doc_name = Some ''Precision Thick Film Resistor SMD'',
      doc_description = Some ''Power resistor for current limiting.'',
      doc_category = Some ''Resistors'',
      doc_unit_price = Some 0.05,
      doc_quantity_available = Some 0,
      doc_tags = Some [''resistor'', ''smd''],
      doc_use_cases = Some [''divider''],
      doc_key_specs = Some (SpecsDict [(''series'', ''Thick Film''), (''package'', ''SMD'')]),
      doc_product_url = Some ''https://www.digikey.com/yage-110001-17/'',
      doc_datasheet_url = Some ''https://datasheets.example.com/yage-110001-17.pdf''\<rparr>"

definition usb_hub_doc :: document where
  "usb_hub_doc = psu_doc\<lparr>doc_id := Some ''mock-05-0007'', doc_name := Some ''Compact USB Hub Module''\<rparr>"

definition nameless_doc :: document where
  \<comment> \<open>A document without the key \<^verbatim>\<open>name\<close>.\<close>
  "nameless_doc = psu_doc\<lparr>doc_name := None\<rparr>"

definition psu_result :: "rat \<Rightarrow> string \<Rightarrow> ProductResult" where
  \<comment> \<open>The result built from \<^const>\<open>psu_doc\<close> with a given score and reason.\<close>
  "psu_result score reason =
     \<lparr>pr_id = ''rpi-featured-001'',
      pr_manufacturer = ''Raspberry Pi'',
      pr_manufacturer_part_number = ''RPI-PSU27-42'',
      pr_name = ''Raspberry Pi Official USB-C 27W PSU'',
      pr_description = ''5V power supply for Raspberry Pi 5 boards.'',
      pr_category = ''Raspberry Pi Accessories'',
      pr_unit_price = 12.5,
      pr_quantity_available = 500,
      pr_product_url = ''https://www.digikey.com/rpi-psu27-42/'',
      pr_datasheet_url = ''https://datasheets.example.com/rpi-psu27-42.pdf'',
      pr_recommendation_score = score,
      pr_fit_reason = reason\<rparr>"

definition resistor_result :: "rat \<Rightarrow> string \<Rightarrow> ProductResult" where
  \<comment> \<open>The result built from \<^const>\<open>resistor_doc\<close> with a given score and reason.\<close>
  "resistor_result score reason =
     \<lparr>pr_id = ''mock-11-0001'',
      pr_manufacturer = ''Yageo'',
      pr_manufacturer_part_number = ''YAGE-110001-17'',
      pr_name = ''Precision Thick Film Resistor SMD'',
      pr_description = ''Power resistor for current limiting.'',
      pr_category = ''Resistors'',
      pr_unit_price = 0.05,
      pr_quantity_available = 0,
      pr_product_url = ''https://www.digikey.com/yage-110001-17/'',
      pr_datasheet_url = ''https://datasheets.example.com/yage-110001-17.pdf'',
      pr_recommendation_score = score,
      pr_fit_reason = reason\<rparr>"

definition psu_intent :: QueryIntent where
  "psu_intent =
     \<lparr>intent_keywords = ''raspberry pi power supply'', intent_limit = 5,
      intent_in_stock_only = True, intent_min_quantity = None, intent_max_unit_price = None,
      intent_sort_preference = relevance\<rparr>"

definition price_low_intent :: QueryIntent where
  "price_low_intent =
     \<lparr>intent_keywords = ''power supply'', intent_limit = 5,
      intent_in_stock_only = False, intent_min_quantity = Some 0, intent_max_unit_price = Some 20,
      intent_sort_preference = price_low\<rparr>"

definition no_hits :: client where
  "no_hits request = Inr []"


definition two_hits :: client where
  \<comment> \<open>An engine that answers with one scored hit and one hit whose score is zero.\<close>
  "two_hits request =
     Inr [\<lparr>hit_score = Some 0, hit_source = Some resistor_doc\<rparr>,
          \<lparr>hit_score = Some 0.5, hit_source = Some psu_doc\<rparr>]"

definition always_up :: "nat \<Rightarrow> attempt" where
  "always_up i = ping_ok no_hits"

definition remote_service :: "client \<Rightarrow> document list \<Rightarrow> CatalogService" where
  \<comment> \<open>A service as a successful \<^const>\<open>initialize\<close> leaves it.\<close>
  "remote_service c docs =
     \<lparr>es_index = ''digikey_products'', connect_attempts = 5, s_client = Some c,
      s_mode = ''elasticsearch'', s_fallback_docs = docs\<rparr>"

section \<open>Auxiliary facts\<close>

lemma str_in_iff: "str_in t h \<longleftrightarrow> (\<exists>a b. h = a @ t @ b)"
proof (induction h)
  case Nil
  then show ?case by auto
next
  case (Cons c cs)
  have pre: "take (length t) (c # cs) = t \<longleftrightarrow> (\<exists>b. c # cs = t @ b)"
    by (metis append_eq_conv_conj append_take_drop_id)
  have "(\<exists>a b. c # cs = a @ t @ b) \<longleftrightarrow> (\<exists>b. c # cs = t @ b) \<or> (\<exists>a b. cs = a @ t @ b)"
  proof
    assume "\<exists>a b. c # cs = a @ t @ b"
    then obtain a b where ab: "c # cs = a @ t @ b" by blast
    show "(\<exists>b. c # cs = t @ b) \<or> (\<exists>a b. cs = a @ t @ b)"
    proof (cases a)
      case Nil
      with ab show ?thesis by auto
    next
      case (Cons x a')
      with ab have "cs = a' @ t @ b" by simp
      then show ?thesis by blast
    qed
  next
    assume "(\<exists>b. c # cs = t @ b) \<or> (\<exists>a b. cs = a @ t @ b)"
    then show "\<exists>a b. c # cs = a @ t @ b"
    proof
      assume "\<exists>b. c # cs = t @ b"
      then obtain b where "c # cs = [] @ t @ b" by auto
      then show ?thesis by blast
    next
      assume "\<exists>a b. cs = a @ t @ b"
      then obtain a b where "c # cs = (c # a) @ t @ b" by auto
      then show ?thesis by blast
    qed
  qed
  with pre Cons show ?case by simp
qed

lemma round_half_even_lower: "of_int k \<le> y \<Longrightarrow> k \<le> round_half_even y"
proof -
  assume "of_int k \<le> y"
  then have "k \<le> \<lfloor>y\<rfloor>" by (simp add: le_floor_iff)
  then show ?thesis by (auto simp: round_half_even_def Let_def)
qed

lemma round_half_even_upper: "y \<le> of_int k \<Longrightarrow> round_half_even y \<le> k"
proof -
  assume le: "y \<le> of_int k"
  show ?thesis
  proof (cases "y = of_int k")
    case True
    then show ?thesis by (simp add: round_half_even_def Let_def)
  next
    case False
    with le have "y < of_int k" by simp
    then have "\<lfloor>y\<rfloor> < k" by (simp add: floor_less_iff)
    then have "\<lfloor>y\<rfloor> + 1 \<le> k" by simp
    then show ?thesis by (auto simp: round_half_even_def Let_def)
  qed
qed


lemma py_round_lower: "of_int k / 10 ^ n \<le> x \<Longrightarrow> of_int k / 10 ^ n \<le> py_round x n"
proof -
  assume "of_int k / 10 ^ n \<le> x"
  then have "of_int k \<le> x * 10 ^ n" by (simp add: pos_divide_le_eq)
  then have "k \<le> round_half_even (x * 10 ^ n)" by (rule round_half_even_lower)
  then show ?thesis by (simp add: py_round_def divide_right_mono)
qed

lemma py_round_upper: "x \<le> of_int k / 10 ^ n \<Longrightarrow> py_round x n \<le> of_int k / 10 ^ n"
proof -
  assume "x \<le> of_int k / 10 ^ n"
  then have "x * 10 ^ n \<le> of_int k" by (simp add: pos_le_divide_eq)
  then have "round_half_even (x * 10 ^ n) \<le> k" by (rule round_half_even_upper)
  then show ?thesis by (simp add: py_round_def divide_right_mono)
qed


lemma keyword_coverage_range: "0 \<le> keyword_coverage q d \<and> keyword_coverage q d \<le> 1"
proof -
  let ?T = "coverage_query_tokens q"
  have fin: "finite ?T" by (simp add: coverage_query_tokens_def)
  have "card {t \<in> ?T. str_in t (coverage_haystack d)} \<le> card ?T"
    by (rule card_mono[OF fin]) auto
  then show ?thesis
    by (auto simp: keyword_coverage_def Let_def divide_le_eq_1)
qed

lemma initialize_mode:
  "s_mode (fst (initialize self world provision)) = ''fallback''
   \<or> s_mode (fst (initialize self world provision)) = ''elasticsearch''
   \<or> s_mode (fst (initialize self world provision)) = s_mode self"
  by (simp add: initialize_def split: option.splits)

lemma search_unchanged: "fst (search self intent) = self"
  by (simp add: search_def split: sum.splits)

lemma and_then_Inr_iff: "and_then m f = Inr y \<longleftrightarrow> (\<exists>x. m = Inr x \<and> f x = Inr y)"
  by (cases m) (simp_all add: and_then_def)

lemma and_then_Inr [simp]: "and_then (Inr x) f = f x"
  by (simp add: and_then_def)

lemma and_then_Inl [simp]: "and_then (Inl e) f = Inl e"
  by (simp add: and_then_def)

lemma subscript_Inr_iff: "subscript k v = Inr x \<longleftrightarrow> v = Some x"
  by (cases v) (simp_all add: subscript_def)

lemma subscript_Some [simp]: "subscript k (Some x) = Inr x"
  by (simp add: subscript_def)

lemma product_result_Inr:
  assumes "product_result doc score reason = Inr r"
  shows "doc_id doc = Some (pr_id r)"
    and "doc_manufacturer doc = Some (pr_manufacturer r)"
    and "doc_manufacturer_part_number doc = Some (pr_manufacturer_part_number r)"
    and "doc_name doc = Some (pr_name r)"
    and "doc_description doc = Some (pr_description r)"
    and "doc_category doc = Some (pr_category r)"
    and "doc_unit_price doc = Some (pr_unit_price r)"
    and "doc_quantity_available doc = Some (pr_quantity_available r)"
    and "doc_product_url doc = Some (pr_product_url r)"
    and "doc_datasheet_url doc = Some (pr_datasheet_url r)"
    and "pr_recommendation_score r = score"
    and "pr_fit_reason r = reason"
  using assms
  by (auto simp: product_result_def and_then_Inr_iff subscript_Inr_iff)


lemma sorted_sort_by_score:
  "sorted_wrt (\<lambda>a b. pr_recommendation_score b \<le> pr_recommendation_score a) (sort_by_score results)"
proof -
  have "sorted (map (\<lambda>r. - pr_recommendation_score r) (sort_by_score results))"
    unfolding sort_by_score_def by (rule sorted_sort_key)
  then show ?thesis
    by (simp add: sorted_map)
qed

lemma set_sort_by_score [simp]: "set (sort_by_score results) = set results"
  by (simp add: sort_by_score_def)

lemma mset_sort_by_score [simp]: "mset (sort_by_score results) = mset results"
  by (simp add: sort_by_score_def)

lemma set_slice_to: "set (slice_to xs n) \<subseteq> set xs"
  by (auto simp: slice_to_def dest: in_set_takeD)

lemma length_slice_to: "0 \<le> n \<Longrightarrow> int (length (slice_to xs n)) \<le> n"
  by (simp add: slice_to_def)

lemma sorted_wrt_slice_to: "sorted_wrt R xs \<Longrightarrow> sorted_wrt R (slice_to xs n)"
  by (simp add: slice_to_def sorted_wrt_take)

lemma fallback_loop_mem:
  assumes "fallback_loop intent toks docs = Inr results" "r \<in> set results"
  shows "\<exists>doc \<in> set docs. fallback_candidate intent toks doc = Inr (Some r)"
  using assms
proof (induction docs arbitrary: results)
  case Nil
  then show ?case by simp
next
  case (Cons doc docs)
  from Cons.prems(1) obtain candidate rest where
    c: "fallback_candidate intent toks doc = Inr candidate" and
    l: "fallback_loop intent toks docs = Inr rest" and
    res: "results = (case candidate of None \<Rightarrow> rest | Some x \<Rightarrow> x # rest)"
    by (auto simp: and_then_Inr_iff split: option.splits)
  show ?case
  proof (cases "r \<in> set rest")
    case True
    with Cons.IH[OF l] show ?thesis by auto
  next
    case False
    with res Cons.prems(2) have "candidate = Some r"
      by (cases candidate) auto
    with c show ?thesis by simp
  qed
qed





lemma fallback_candidate_Some:
  assumes "fallback_candidate intent toks doc = Inr (Some r)"
  shows "product_result doc (pr_recommendation_score r) (pr_fit_reason r) = Inr r"
    and "pr_recommendation_score r
           = recommendation_score 1.0 1.0 doc (keyword_coverage (intent_keywords intent) doc)"
    and "intent_in_stock_only intent \<longrightarrow> 0 < pr_quantity_available r"
    and "\<forall>m. intent_min_quantity intent = Some m \<longrightarrow> m \<le> pr_quantity_available r"
    and "\<forall>m. intent_max_unit_price intent = Some m \<longrightarrow> pr_unit_price r \<le> m"
    and "toks \<noteq> {} \<longrightarrow> (\<exists>h token. fallback_haystack doc = Inr h \<and> token \<in> toks \<and> str_in token h)"
proof -
  let ?cov = "keyword_coverage (intent_keywords intent) doc"
  let ?score = "recommendation_score 1.0 1.0 doc ?cov"
  from assms obtain h where h: "fallback_haystack doc = Inr h"
    by (auto simp: fallback_candidate_def and_then_Inr_iff)
  from assms h have nz: "\<not> (toks \<noteq> {} \<and> card {token \<in> toks. str_in token h} = 0)"
    by (auto simp: fallback_candidate_def Let_def split: if_splits)
  from assms h nz have s1: "out_of_stock intent doc = Inr False"
    and s2: "below_min_quantity intent doc = Inr False"
    and s3: "above_max_price intent doc = Inr False"
    and pr: "product_result doc ?score (build_reason doc ?score ?cov) = Inr r"
    by (auto simp: fallback_candidate_def Let_def and_then_Inr_iff split: if_splits)
  note f = product_result_Inr[OF pr]
  from pr f(11,12) show "product_result doc (pr_recommendation_score r) (pr_fit_reason r) = Inr r"
    by simp
  from f(11) show "pr_recommendation_score r = ?score" .
  from s1 f(8) show "intent_in_stock_only intent \<longrightarrow> 0 < pr_quantity_available r"
    by (auto simp: out_of_stock_def split: if_splits)
  from s2 f(8) show "\<forall>m. intent_min_quantity intent = Some m \<longrightarrow> m \<le> pr_quantity_available r"
    by (auto simp: below_min_quantity_def)
  from s3 f(7) show "\<forall>m. intent_max_unit_price intent = Some m \<longrightarrow> pr_unit_price r \<le> m"
    by (auto simp: above_max_price_def)
  show "toks \<noteq> {} \<longrightarrow> (\<exists>h token. fallback_haystack doc = Inr h \<and> token \<in> toks \<and> str_in token h)"
  proof
    assume ne: "toks \<noteq> {}"
    with nz have "card {token \<in> toks. str_in token h} \<noteq> 0" by simp
    then have "{token \<in> toks. str_in token h} \<noteq> {}"
      by (metis card.empty)
    with h show "\<exists>h token. fallback_haystack doc = Inr h \<and> token \<in> toks \<and> str_in token h"
      by auto
  qed
qed



lemma coverage_query_tokens_iff:
  "t \<in> coverage_query_tokens query \<longleftrightarrow>
     (\<exists>token \<in> set (split (lower query)).
        2 < length token \<and> t = strip '',.?!'' token \<and> t \<notin> coverage_stop_words)"
  by (auto simp: coverage_query_tokens_def)

lemma fallback_search_Inr:
  assumes "fallback_search self intent = Inr results"
  shows "\<exists>found. fallback_loop intent (fallback_query_tokens (intent_keywords intent))
                   (s_fallback_docs self) = Inr found
               \<and> results = slice_to (sort_by_score found) (intent_limit intent)"
  using assms by (auto simp: fallback_search_def Let_def and_then_Inr_iff)

lemma fallback_search_mem:
  assumes "fallback_search self intent = Inr results" "r \<in> set results"
  shows "\<exists>doc \<in> set (s_fallback_docs self).
           fallback_candidate intent (fallback_query_tokens (intent_keywords intent)) doc
             = Inr (Some r)"
proof -
  from fallback_search_Inr[OF assms(1)] obtain found where
    l: "fallback_loop intent (fallback_query_tokens (intent_keywords intent))
          (s_fallback_docs self) = Inr found"
    and res: "results = slice_to (sort_by_score found) (intent_limit intent)"
    by blast
  from res assms(2) have "r \<in> set found"
    using set_slice_to[of "sort_by_score found" "intent_limit intent"] by auto
  with l show ?thesis by (rule fallback_loop_mem)
qed

lemma fallback_score_bounds:
  assumes "0 \<le> coverage" "coverage \<le> 1" "0 \<le> get_or (doc_quantity_available doc) 0"
  shows "0.78 \<le> recommendation_score 1.0 1.0 doc coverage"
    and "recommendation_score 1.0 1.0 doc coverage \<le> 1.0"
proof -
  define stock :: rat where
    "stock = min (of_int (get_or (doc_quantity_available doc) 0) / 10000) 1.0"
  define price_score :: rat where
    "price_score = 1 / (1 + max (get_or (doc_unit_price doc) 0.0) 0.0)"
  define x where "x = 0.78 * (1.0 / max 1.0 0.0001) + 0.15 * coverage + 0.05 * stock + 0.02 * price_score"
  have s: "0 \<le> stock" "stock \<le> 1"
    using assms(3) by (simp_all add: stock_def)
  have p: "0 \<le> price_score" "price_score \<le> 1"
    by (simp_all add: price_score_def max_def)
  have rel: "(1.0 :: rat) / max 1.0 0.0001 = 1" by (simp add: max_def)
  have lo: "of_int 7800 / 10 ^ 4 \<le> x"
    using assms(1) s(1) p(1) by (simp add: x_def rel)
  have hi: "x \<le> of_int 10000 / 10 ^ 4"
    using assms(2) s(2) p(2) by (simp add: x_def rel)
  have eq: "recommendation_score 1.0 1.0 doc coverage = py_round x 4"
    by (simp only: recommendation_score_def Let_def x_def stock_def price_score_def)
  show "0.78 \<le> recommendation_score 1.0 1.0 doc coverage"
    unfolding eq using py_round_lower[OF lo] by simp
  show "recommendation_score 1.0 1.0 doc coverage \<le> 1.0"
    unfolding eq using py_round_upper[OF hi] by simp
qed

lemma max_of_eq_Max: "xs \<noteq> [] \<Longrightarrow> max_of xs = Max (set xs)"
proof (cases xs)
  case Nil
  assume "xs \<noteq> []"
  with Nil show ?thesis by simp
next
  case (Cons x rest)
  have "max_of (x # rest) = Max (set (x # rest))"
    by (simp only: max_of.simps Max.set_eq_fold)
  with Cons show ?thesis by simp
qed

lemma hit_results_Inr:
  assumes "hit_results query top_score hits = Inr mapped"
  shows "list_all2 (\<lambda>h r. hit_result query top_score h = Inr r) hits mapped"
  using assms
proof (induction hits arbitrary: mapped)
  case Nil
  then show ?case by simp
next
  case (Cons h hs)
  then show ?case
    by (auto simp: and_then_Inr_iff)
qed

lemma hit_result_score:
  assumes "hit_result query top_score h = Inr r"
  shows "pr_recommendation_score r =
           recommendation_score (score_or h 0.0) top_score (get_or (hit_source h) empty_document)
             (keyword_coverage query (get_or (hit_source h) empty_document))"
  using assms product_result_Inr(11) by (simp add: hit_result_def Let_def)

lemma search_elasticsearch_hits:
  assumes "s_client self = Some c" "c (build_request self intent) = Inr hits" "hits \<noteq> []"
    and "search_elasticsearch self intent = Inr results"
  shows "\<exists>mapped. hit_results (intent_keywords intent) (max_of (map (\<lambda>h. score_or h 1.0) hits)) hits
                    = Inr mapped
                \<and> results = sort_by_score mapped"
  using assms by (auto simp: search_elasticsearch_def Let_def and_then_Inr_iff)

section \<open>Claims\<close>

subsection \<open>C2: the values of the mode\<close>

text \<open>
  C2 reads: after \<^verbatim>\<open>initialize\<close> has run, \<^verbatim>\<open>mode()\<close> is one of the two strings
  "fallback" and "remote". The code names the second mode "elasticsearch": a service whose
  connection and provisioning succeed reports that string, which is neither of the two.
\<close>

theorem mode_after_successful_initialize:
  "mode (fst (initialize (new_service ''digikey_products'' 5 []) always_up None)) = ''elasticsearch''
   \<and> mode (fst (initialize (new_service ''digikey_products'' 5 []) always_up None))
       \<notin> {''fallback'', ''remote''}"
  by code_simp

text \<open>
  C2, amended: in every state a service can reach (construction, then any sequence of
  \<^verbatim>\<open>initialize\<close> and \<^verbatim>\<open>search\<close> calls, whatever their outcome),
  \<^verbatim>\<open>mode()\<close> is one of the two strings "fallback" and "elasticsearch".
\<close>

theorem mode_fallback_or_elasticsearch:
  assumes "reachable self"
  shows "mode self = ''fallback'' \<or> mode self = ''elasticsearch''"
  using assms
proof (induction rule: reachable.induct)
  case (created index attempts docs)
  show ?case by (simp add: mode_def new_service_def)
next
  case (initialized self world provision)
  with initialize_mode[of self world provision] show ?case
    by (auto simp: mode_def)
next
  case (searched self intent)
  then show ?case by (simp add: search_unchanged)
qed

theorem mode_fallback_or_elasticsearch_witness:
  "reachable (fst (initialize (new_service ''digikey_products'' 5 [psu_doc]) always_up None))
   \<and> (mode (fst (initialize (new_service ''digikey_products'' 5 [psu_doc]) always_up None)) = ''fallback''
      \<or> mode (fst (initialize (new_service ''digikey_products'' 5 [psu_doc]) always_up None)) = ''elasticsearch'')"
proof -
  have r: "reachable (fst (initialize (new_service ''digikey_products'' 5 [psu_doc]) always_up None))"
    by (rule reachable.initialized, rule reachable.created)
  show ?thesis
    using r mode_fallback_or_elasticsearch[OF r] by simp
qed

subsection \<open>C3: the two tokenizers\<close>

text \<open>
  C3 reads: the fallback engine and the coverage function compute the same set of
  significant tokens for every query. Their stop-word sets differ: "cheapest" and "in-stock"
  are stop words of the fallback engine only, "in" of the coverage function only. On the
  query "cheapest resistor" the two sets differ.
\<close>

theorem tokenizers_differ_on_cheapest:
  "fallback_query_tokens ''cheapest resistor'' = {''resistor''}
   \<and> coverage_query_tokens ''cheapest resistor'' = {''cheapest'', ''resistor''}
   \<and> fallback_query_tokens ''cheapest resistor'' \<noteq> coverage_query_tokens ''cheapest resistor''"
  by code_simp

text \<open>
  C3, amended: both tokenizers lowercase the query, split it at whitespace, keep the tokens
  longer than two characters and strip \<^verbatim>\<open>,.?!\<close> at both ends; they differ only in
  the stop words. For every query none of whose kept tokens strips to "cheapest", "in-stock"
  or "in", the two sets of significant tokens are equal.
\<close>

theorem tokenizers_agree_off_stop_word_difference:
  assumes "\<forall>token \<in> set (split (lower query)).
             2 < length token \<longrightarrow>
               strip '',.?!'' token \<notin> {''cheapest'', ''in-stock'', ''in''}"
  shows "fallback_query_tokens query = coverage_query_tokens query"
proof -
  have "filter (\<lambda>token. length token > 2 \<and> strip '',.?!'' token \<notin> fallback_stop_words)
          (split (lower query))
        = filter (\<lambda>token. length token > 2 \<and> strip '',.?!'' token \<notin> coverage_stop_words)
          (split (lower query))"
  proof (rule filter_cong[OF refl])
    fix token assume "token \<in> set (split (lower query))"
    with assms show "(length token > 2 \<and> strip '',.?!'' token \<notin> fallback_stop_words)
        = (length token > 2 \<and> strip '',.?!'' token \<notin> coverage_stop_words)"
      by (auto simp: fallback_stop_words_def coverage_stop_words_def)
  qed
  then show ?thesis
    by (simp add: fallback_query_tokens_def coverage_query_tokens_def)
qed

theorem tokenizers_agree_witness:
  "fallback_query_tokens ''Raspberry Pi power supply!''
     = coverage_query_tokens ''Raspberry Pi power supply!''
   \<and> coverage_query_tokens ''Raspberry Pi power supply!'' = {''raspberry'', ''power'', ''supply''}"
proof -
  have h: "\<forall>token \<in> set (split (lower ''Raspberry Pi power supply!'')).
      2 < length token \<longrightarrow> strip '',.?!'' token \<notin> {''cheapest'', ''in-stock'', ''in''}"
    by code_simp
  have v: "coverage_query_tokens ''Raspberry Pi power supply!'' = {''raspberry'', ''power'', ''supply''}"
    by code_simp
  show ?thesis
    using tokenizers_agree_off_stop_word_difference[OF h] v by simp
qed

subsection \<open>C1: a failing remote search falls back\<close>



subsection \<open>C8: zero hits are a result\<close>

text \<open>
  C8: in remote mode, when the engine answers the request with no hit, \<^verbatim>\<open>search\<close>
  returns the empty list and no warning. The fallback engine is not consulted: the result
  is the same whatever the catalog, also over one on which the fallback search raises.
\<close>

theorem search_zero_hits:
  assumes "s_mode self = ''elasticsearch''" "s_client self = Some c"
    and "c (build_request self intent) = Inr []"
  shows "search self intent = (self, Inr ([], None))"
  using assms by (simp add: search_def search_elasticsearch_def)

text \<open>
  The catalog of this service holds a document without a name, on which the fallback search
  raises \<^verbatim>\<open>KeyError\<close>; the remote search with zero hits returns normally.
\<close>

theorem search_zero_hits_witness:
  "search (remote_service no_hits [nameless_doc]) psu_intent
     = (remote_service no_hits [nameless_doc], Inr ([], None))
   \<and> fallback_search (remote_service no_hits [nameless_doc]) psu_intent = Inl (KeyError ''name'')"
proof -
  let ?s = "remote_service no_hits [nameless_doc]"
  have m: "s_mode ?s = ''elasticsearch''" "s_client ?s = Some no_hits"
    by (simp_all add: remote_service_def)
  have h: "no_hits (build_request ?s psu_intent) = Inr []"
    by (simp add: no_hits_def)
  have f: "fallback_search ?s psu_intent = Inl (KeyError ''name'')"
    by code_simp
  show ?thesis
    using search_zero_hits[OF m h] f by simp
qed

subsection \<open>C5: the composite recommendation score\<close>



subsection \<open>C9: the spec blob\<close>

text \<open>
  C9: the spec blob is a function of the specification map alone. Two documents with the
  same \<^verbatim>\<open>key_specs\<close> have the same blob, whatever their other fields; the seeding
  script's copy of the function computes the same string; for a specification map the blob
  is the pairs \<open>key value\<close> in the map's order, joined by blanks; it is empty when
  the key is absent or its value is no map.
\<close>

theorem spec_blob_depends_on_key_specs_only:
  assumes "doc_key_specs doc = doc_key_specs doc'"
  shows "spec_blob_from_doc doc = spec_blob_from_doc doc'
         \<and> spec_blob doc = spec_blob doc'
         \<and> spec_blob doc = spec_blob_from_doc doc
         \<and> (\<forall>specs. doc_key_specs doc = Some (SpecsDict specs) \<longrightarrow>
               spec_blob_from_doc doc = join '' '' (map (\<lambda>(key, value). key @ '' '' @ value) specs))
         \<and> (doc_key_specs doc = None \<or> doc_key_specs doc = Some SpecsOther \<longrightarrow>
               spec_blob_from_doc doc = [])"
  using assms by (auto simp: spec_blob_from_doc_def spec_blob_def get_or_def)

theorem spec_blob_witness:
  "spec_blob_from_doc usb_hub_doc = spec_blob_from_doc psu_doc
   \<and> spec_blob_from_doc psu_doc = ''interface USB-C status Active''"
proof -
  have k: "doc_key_specs usb_hub_doc = doc_key_specs psu_doc"
    by (simp add: usb_hub_doc_def)
  have v: "spec_blob_from_doc psu_doc = ''interface USB-C status Active''"
    by (simp add: spec_blob_from_doc_def psu_doc_def get_or_def)
  show ?thesis
    using spec_blob_depends_on_key_specs_only[OF k] v by simp
qed

subsection \<open>C7: keyword coverage\<close>

text \<open>
  C7 reads: the significant tokens are obtained by lowercasing, whitespace splitting,
  stripping trailing punctuation and dropping the tokens of length at most two and the stop
  words; coverage is 0.0 when none remains, else the fraction of them found in the haystack.
  The code strips \<^verbatim>\<open>,.?!\<close> at both ends of a token, and tests the length of the
  token before stripping it. On the query "?usb" the code finds the token "usb" in the
  name of a USB hub (coverage 1) where the tokenizer as worded keeps "?usb" (coverage 0);
  on the query "5v," the tokenizer as worded leaves no token, so coverage would be 0.0,
  and the code keeps "5v" and returns 1.
\<close>

theorem keyword_coverage_differs_from_specification:
  "keyword_coverage ''?usb'' usb_hub_doc = 1
   \<and> spec_keyword_coverage ''?usb'' usb_hub_doc = 0
   \<and> spec_query_tokens ''5v,'' = {}
   \<and> keyword_coverage ''5v,'' psu_doc = 1"
  by code_simp

text \<open>
  C7, amended: the significant tokens are the tokens of the lowercased, whitespace-split
  query that are longer than two characters, stripped of \<^verbatim>\<open>,.?!\<close> at both ends,
  and that are no stop words once stripped. \<^verbatim>\<open>keyword_coverage\<close> returns 0 when there
  is none, and otherwise the number of significant tokens that occur as substrings of the
  haystack (the lowercased manufacturer, part number, name, description, tags and use-cases,
  joined by blanks) divided by the number of significant tokens; the value is in [0, 1].
\<close>

theorem keyword_coverage_value:
  "keyword_coverage query doc =
     (if coverage_query_tokens query = {} then 0
      else of_nat (card {token \<in> coverage_query_tokens query. str_in token (coverage_haystack doc)})
             / of_nat (card (coverage_query_tokens query)))
   \<and> 0 \<le> keyword_coverage query doc \<and> keyword_coverage query doc \<le> 1
   \<and> coverage_query_tokens query =
       {strip '',.?!'' token | token.
          token \<in> set (split (lower query)) \<and> 2 < length token
          \<and> strip '',.?!'' token \<notin> coverage_stop_words}
   \<and> (\<forall>token. str_in token (coverage_haystack doc)
         \<longleftrightarrow> (\<exists>before after. coverage_haystack doc = before @ token @ after))"
proof -
  have v: "keyword_coverage query doc =
     (if coverage_query_tokens query = {} then 0
      else of_nat (card {token \<in> coverage_query_tokens query. str_in token (coverage_haystack doc)})
             / of_nat (card (coverage_query_tokens query)))"
    by (simp add: keyword_coverage_def Let_def)
  have t: "coverage_query_tokens query =
       {strip '',.?!'' token | token.
          token \<in> set (split (lower query)) \<and> 2 < length token
          \<and> strip '',.?!'' token \<notin> coverage_stop_words}"
    by (auto simp: coverage_query_tokens_def)
  have s: "\<forall>token. str_in token (coverage_haystack doc)
         \<longleftrightarrow> (\<exists>before after. coverage_haystack doc = before @ token @ after)"
    by (simp add: str_in_iff)
  from v keyword_coverage_range[of query doc] t s show ?thesis by blast
qed

theorem keyword_coverage_witness:
  "keyword_coverage ''Find the cheapest USB-C PSU!'' psu_doc = 2 / 3
   \<and> coverage_query_tokens ''Find the cheapest USB-C PSU!'' = {''cheapest'', ''usb-c'', ''psu''}
   \<and> keyword_coverage ''find the best'' psu_doc = 0"
proof -
  have t: "coverage_query_tokens ''Find the cheapest USB-C PSU!'' = {''cheapest'', ''usb-c'', ''psu''}"
    by code_simp
  have c: "(if coverage_query_tokens ''Find the cheapest USB-C PSU!'' = {} then 0
            else of_nat (card {token \<in> coverage_query_tokens ''Find the cheapest USB-C PSU!''.
                    str_in token (coverage_haystack psu_doc)})
                 / of_nat (card (coverage_query_tokens ''Find the cheapest USB-C PSU!''))) = (2 / 3 :: rat)"
    by code_simp
  have e: "(if coverage_query_tokens ''find the best'' = {} then 0
            else of_nat (card {token \<in> coverage_query_tokens ''find the best''.
                    str_in token (coverage_haystack psu_doc)})
                 / of_nat (card (coverage_query_tokens ''find the best''))) = (0 :: rat)"
    by code_simp
  have a: "keyword_coverage ''Find the cheapest USB-C PSU!'' psu_doc = 2 / 3"
    by (rule trans[OF conjunct1[OF keyword_coverage_value] c])
  have b: "keyword_coverage ''find the best'' psu_doc = 0"
    by (rule trans[OF conjunct1[OF keyword_coverage_value] e])
  show ?thesis
    by (intro conjI a t b)
qed

subsection \<open>C10: the range of fallback scores\<close>

text \<open>
  C10: over a seed catalog whose documents have a non-negative quantity, as the data model
  requires, every result of the fallback search has a recommendation score between 0.78 and
  1.0: the relevance term is 0.78, and coverage, stock and price add between 0 and 0.22.
\<close>

theorem fallback_score_range:
  assumes "fallback_search self intent = Inr results"
    and "r \<in> set results"
    and "\<forall>doc \<in> set (s_fallback_docs self). 0 \<le> get_or (doc_quantity_available doc) 0"
  shows "0.78 \<le> pr_recommendation_score r \<and> pr_recommendation_score r \<le> 1.0"
proof -
  from fallback_search_mem[OF assms(1,2)] obtain doc where
    d: "doc \<in> set (s_fallback_docs self)"
    and c: "fallback_candidate intent (fallback_query_tokens (intent_keywords intent)) doc
              = Inr (Some r)"
    by blast
  from d assms(3) have q: "0 \<le> get_or (doc_quantity_available doc) 0" by blast
  have cov: "0 \<le> keyword_coverage (intent_keywords intent) doc"
    "keyword_coverage (intent_keywords intent) doc \<le> 1"
    using keyword_coverage_range by blast+
  from fallback_candidate_Some(2)[OF c] fallback_score_bounds[OF cov q]
  show ?thesis by simp
qed

theorem fallback_score_range_witness:
  "fallback_search (remote_service no_hits [resistor_doc, psu_doc]) price_low_intent =
     Inr [psu_result 0.934
            ''Score 0.93 with keyword coverage 1.00, stock (500 pcs), and price ($12.50).'',
          resistor_result 0.874
            ''Score 0.87 with keyword coverage 0.50, stock (0 pcs), and price ($0.05).'']
   \<and> 0.78 \<le> pr_recommendation_score (resistor_result 0.874
            ''Score 0.87 with keyword coverage 0.50, stock (0 pcs), and price ($0.05).'')
   \<and> pr_recommendation_score (resistor_result 0.874
            ''Score 0.87 with keyword coverage 0.50, stock (0 pcs), and price ($0.05).'') \<le> 1.0"
proof -
  let ?s = "remote_service no_hits [resistor_doc, psu_doc]"
  let ?r = "resistor_result 0.874
            ''Score 0.87 with keyword coverage 0.50, stock (0 pcs), and price ($0.05).''"
  have f: "fallback_search ?s price_low_intent =
     Inr [psu_result 0.934
            ''Score 0.93 with keyword coverage 1.00, stock (500 pcs), and price ($12.50).'', ?r]"
    by code_simp
  have m: "?r \<in> set [psu_result 0.934
            ''Score 0.93 with keyword coverage 1.00, stock (500 pcs), and price ($12.50).'', ?r]"
    by simp
  have q: "\<forall>doc \<in> set (s_fallback_docs ?s). 0 \<le> get_or (doc_quantity_available doc) 0"
    by code_simp
  show ?thesis
    using fallback_score_range[OF f m q] f by simp
qed

subsection \<open>C6: the results of the fallback search\<close>

text \<open>
  C6: for every valid intent, every result the fallback search returns satisfies the
  constraints of the intent (a positive quantity when only stock is wanted, a quantity of at
  least the minimum and a price of at most the maximum when these are given) and is built
  from a document of the catalog, one whose haystack contains a significant token of the
  query when the query has any; the list is sorted by descending recommendation score and
  no longer than the limit.
\<close>

theorem fallback_search_results:
  assumes "fallback_search self intent = Inr results"
    and "QueryIntent_valid intent"
  shows "(\<forall>r \<in> set results.
            (intent_in_stock_only intent \<longrightarrow> 0 < pr_quantity_available r)
            \<and> (\<forall>m. intent_min_quantity intent = Some m \<longrightarrow> m \<le> pr_quantity_available r)
            \<and> (\<forall>m. intent_max_unit_price intent = Some m \<longrightarrow> pr_unit_price r \<le> m)
            \<and> (\<exists>doc \<in> set (s_fallback_docs self).
                  product_result doc (pr_recommendation_score r) (pr_fit_reason r) = Inr r
                  \<and> (fallback_query_tokens (intent_keywords intent) \<noteq> {} \<longrightarrow>
                       (\<exists>haystack token.
                          fallback_haystack doc = Inr haystack
                          \<and> token \<in> fallback_query_tokens (intent_keywords intent)
                          \<and> str_in token haystack))))
         \<and> sorted_wrt (\<lambda>a b. pr_recommendation_score b \<le> pr_recommendation_score a) results
         \<and> int (length results) \<le> intent_limit intent"
proof -
  let ?toks = "fallback_query_tokens (intent_keywords intent)"
  from fallback_search_Inr[OF assms(1)] obtain found where
    res: "results = slice_to (sort_by_score found) (intent_limit intent)"
    by blast
  have each: "(intent_in_stock_only intent \<longrightarrow> 0 < pr_quantity_available r)
            \<and> (\<forall>m. intent_min_quantity intent = Some m \<longrightarrow> m \<le> pr_quantity_available r)
            \<and> (\<forall>m. intent_max_unit_price intent = Some m \<longrightarrow> pr_unit_price r \<le> m)
            \<and> (\<exists>doc \<in> set (s_fallback_docs self).
                  product_result doc (pr_recommendation_score r) (pr_fit_reason r) = Inr r
                  \<and> (?toks \<noteq> {} \<longrightarrow>
                       (\<exists>haystack token.
                          fallback_haystack doc = Inr haystack \<and> token \<in> ?toks
                          \<and> str_in token haystack)))"
    if "r \<in> set results" for r
  proof -
    from fallback_search_mem[OF assms(1) that] obtain doc where
      d: "doc \<in> set (s_fallback_docs self)"
      and c: "fallback_candidate intent ?toks doc = Inr (Some r)"
      by blast
    note f = fallback_candidate_Some[OF c]
    from d f(1) f(6) have "\<exists>doc \<in> set (s_fallback_docs self).
                  product_result doc (pr_recommendation_score r) (pr_fit_reason r) = Inr r
                  \<and> (?toks \<noteq> {} \<longrightarrow>
                       (\<exists>haystack token.
                          fallback_haystack doc = Inr haystack \<and> token \<in> ?toks
                          \<and> str_in token haystack))"
      by blast
    with f(3) f(4) f(5) show ?thesis by blast
  qed
  have sorted: "sorted_wrt (\<lambda>a b. pr_recommendation_score b \<le> pr_recommendation_score a) results"
    unfolding res by (rule sorted_wrt_slice_to[OF sorted_sort_by_score])
  from assms(2) have "0 \<le> intent_limit intent"
    by (simp add: QueryIntent_valid_def)
  then have len: "int (length results) \<le> intent_limit intent"
    unfolding res by (rule length_slice_to)
  from each sorted len show ?thesis by blast
qed

text \<open>
  The scenario of the specification: the power supply is returned, the resistor out of stock
  is not.
\<close>

theorem fallback_search_results_witness:
  "fallback_search (remote_service no_hits [resistor_doc, psu_doc]) psu_intent =
     Inr [psu_result 0.934
            ''Score 0.93 with keyword coverage 1.00, stock (500 pcs), and price ($12.50).'']
   \<and> sorted_wrt (\<lambda>a b. pr_recommendation_score b \<le> pr_recommendation_score a)
        [psu_result 0.934
            ''Score 0.93 with keyword coverage 1.00, stock (500 pcs), and price ($12.50).'']
   \<and> QueryIntent_valid psu_intent"
proof -
  let ?s = "remote_service no_hits [resistor_doc, psu_doc]"
  have f: "fallback_search ?s psu_intent =
     Inr [psu_result 0.934
            ''Score 0.93 with keyword coverage 1.00, stock (500 pcs), and price ($12.50).'']"
    by code_simp
  have v: "QueryIntent_valid psu_intent"
    by code_simp
  show ?thesis
    using fallback_search_results[OF f v] f v by simp
qed

subsection \<open>C4: the order of the remote results\<close>

text \<open>
  C4 reads: the remote results are sorted by descending recommendation score, with the top
  relevance taken as the maximum engine score over the returned hits. The code takes the
  maximum of \<^verbatim>\<open>hit.get("_score") or 1.0\<close>: a hit without a score, or with the score
  zero, counts as 1.0. When the engine answers with a hit of score 0 and one of score 0.5,
  the top score is 1.0 and the second hit is scored 0.544; with the maximum engine score
  0.5 as the normalizer it would be scored 0.934.
\<close>

theorem remote_top_score_counterexample:
  "search_elasticsearch (remote_service two_hits []) price_low_intent =
     Inr [psu_result 0.544
            ''Score 0.54 with keyword coverage 1.00, stock (500 pcs), and price ($12.50).'',
          resistor_result 0.094
            ''Score 0.09 with keyword coverage 0.50, stock (0 pcs), and price ($0.05).'']
   \<and> Max {0, 0.5 :: rat} = 0.5
   \<and> recommendation_score 0.5 (Max {0, 0.5}) psu_doc (keyword_coverage ''power supply'' psu_doc)
       = 0.934"
  by code_simp

text \<open>
  C4, amended: for every intent, whatever its sort preference, when the engine answers with
  at least one hit and the remote search returns, the returned list is sorted by descending
  recommendation score and is a rearrangement of the hits mapped through the scoring model;
  each hit is scored with its own engine score (0.0 when absent or zero) and with the top
  score, which is the maximum over the hits of the engine score, an absent or zero score
  counting as 1.0. When every hit carries a non-zero score, the top score is the maximum
  engine score.
\<close>

theorem remote_results_sorted_by_score:
  assumes "s_client self = Some c"
    and "c (build_request self intent) = Inr hits"
    and "hits \<noteq> []"
    and "search_elasticsearch self intent = Inr results"
  shows "sorted_wrt (\<lambda>a b. pr_recommendation_score b \<le> pr_recommendation_score a) results
         \<and> (\<exists>mapped.
               mset results = mset mapped
               \<and> list_all2
                   (\<lambda>h r. hit_result (intent_keywords intent)
                             (Max (set (map (\<lambda>h. score_or h 1.0) hits))) h = Inr r
                          \<and> pr_recommendation_score r =
                              recommendation_score (score_or h 0.0)
                                (Max (set (map (\<lambda>h. score_or h 1.0) hits)))
                                (get_or (hit_source h) empty_document)
                                (keyword_coverage (intent_keywords intent)
                                   (get_or (hit_source h) empty_document)))
                   hits mapped)
         \<and> ((\<forall>h \<in> set hits. \<exists>s. hit_score h = Some s \<and> s \<noteq> 0) \<longrightarrow>
               Max (set (map (\<lambda>h. score_or h 1.0) hits)) = Max (set (map (\<lambda>h. the (hit_score h)) hits)))"
proof -
  let ?top = "max_of (map (\<lambda>h. score_or h 1.0) hits)"
  from search_elasticsearch_hits[OF assms] obtain mapped where
    m: "hit_results (intent_keywords intent) ?top hits = Inr mapped"
    and res: "results = sort_by_score mapped"
    by blast
  have top: "?top = Max (set (map (\<lambda>h. score_or h 1.0) hits))"
    using assms(3) by (simp add: max_of_eq_Max)
  have sorted: "sorted_wrt (\<lambda>a b. pr_recommendation_score b \<le> pr_recommendation_score a) results"
    unfolding res by (rule sorted_sort_by_score)
  have ms: "mset results = mset mapped"
    by (simp add: res)
  have "list_all2 (\<lambda>h r. hit_result (intent_keywords intent) ?top h = Inr r) hits mapped"
    by (rule hit_results_Inr[OF m])
  then have each: "list_all2
                   (\<lambda>h r. hit_result (intent_keywords intent) ?top h = Inr r
                          \<and> pr_recommendation_score r =
                              recommendation_score (score_or h 0.0) ?top
                                (get_or (hit_source h) empty_document)
                                (keyword_coverage (intent_keywords intent)
                                   (get_or (hit_source h) empty_document)))
                   hits mapped"
    by (rule list_all2_mono) (simp add: hit_result_score)
  have nz: "(\<forall>h \<in> set hits. \<exists>s. hit_score h = Some s \<and> s \<noteq> 0) \<longrightarrow>
               Max (set (map (\<lambda>h. score_or h 1.0) hits)) = Max (set (map (\<lambda>h. the (hit_score h)) hits))"
  proof
    assume a: "\<forall>h \<in> set hits. \<exists>s. hit_score h = Some s \<and> s \<noteq> 0"
    have "map (\<lambda>h. score_or h 1.0) hits = map (\<lambda>h. the (hit_score h)) hits"
      using a by (auto simp: score_or_def)
    then show "Max (set (map (\<lambda>h. score_or h 1.0) hits)) = Max (set (map (\<lambda>h. the (hit_score h)) hits))"
      by simp
  qed
  from sorted ms each nz show ?thesis
    unfolding top by blast
qed

theorem remote_results_sorted_witness:
  "search_elasticsearch (remote_service two_hits []) price_low_intent =
     Inr [psu_result 0.544
            ''Score 0.54 with keyword coverage 1.00, stock (500 pcs), and price ($12.50).'',
          resistor_result 0.094
            ''Score 0.09 with keyword coverage 0.50, stock (0 pcs), and price ($0.05).'']
   \<and> sorted_wrt (\<lambda>a b. pr_recommendation_score b \<le> pr_recommendation_score a)
        [psu_result 0.544
            ''Score 0.54 with keyword coverage 1.00, stock (500 pcs), and price ($12.50).'',
          resistor_result 0.094
            ''Score 0.09 with keyword coverage 0.50, stock (0 pcs), and price ($0.05).'']
   \<and> intent_sort_preference price_low_intent = price_low"
proof -
  let ?s = "remote_service two_hits []"
  let ?hits = "[\<lparr>hit_score = Some 0, hit_source = Some resistor_doc\<rparr>,
          \<lparr>hit_score = Some 0.5, hit_source = Some psu_doc\<rparr>]"
  have c: "s_client ?s = Some two_hits"
    by (simp add: remote_service_def)
  have h: "two_hits (build_request ?s price_low_intent) = Inr ?hits"
    by (simp add: two_hits_def)
  have n: "?hits \<noteq> []"
    by simp
  have r: "search_elasticsearch ?s price_low_intent =
     Inr [psu_result 0.544
            ''Score 0.54 with keyword coverage 1.00, stock (500 pcs), and price ($12.50).'',
          resistor_result 0.094
            ''Score 0.09 with keyword coverage 0.50, stock (0 pcs), and price ($0.05).'']"
    by code_simp
  have p: "intent_sort_preference price_low_intent = price_low"
    by (simp add: price_low_intent_def)
  from remote_results_sorted_by_score[OF c h n r] r p show ?thesis
    by simp
qed

end
